theory Spec2Isabelle
  imports Complex_Main "HOL-Library.AList" "HOL-Library.Sublist"
begin

section \<open>JavaScript values and the instance\<close>

text \<open>
  The three files are modelled for one instance \<open>this\<close> (an \<open>Eventable\<close>, or a \<open>modal\<close>
  with \<open>Eventable\<close> and \<open>Logger\<close> mixed in by \<open>$.extend\<close>) together with the page state
  the methods read and write.

  A JavaScript value is a \<open>jsval\<close>. Functions supplied by callers are \<open>JFunc f\<close>; what
  they do is given by a table \<open>fns\<close> mapping \<open>f\<close>, the arguments and the state to an
  outcome, so a listener may change any part of the state or throw. \<open>JListener n\<close> is the
  object created by \<open>new Eventable()\<close> inside \<open>addListener\<close>, \<open>JElem n\<close> a jQuery object
  holding DOM element \<open>n\<close>, \<open>JObj n\<close> any other object, \<open>JThis\<close> the instance itself.
  \<open>JEvent type target params\<close> is an event record; its \<open>type\<close> is absent or a string.
  \<open>JListeners reg\<close> is the dictionary held in \<open>_listeners\<close>: event name to array, the
  arrays living in a store because \<open>trigger\<close> iterates over an array that listeners can
  change in place. \<open>JConcat p v\<close> is the string \<open>p + v\<close> for a \<open>v\<close> that is not a string
  (its text is not worked out).

  Limits of the model, all of them about inputs the source's documentation does not expect:
  numbers are rationals (no \<open>NaN\<close>); an object other than a \<open>JListeners\<close> dictionary
  found in \<open>_listeners\<close> is treated like a primitive without members (reads give
  \<open>undefined\<close>, writes are lost); handlers bound through jQuery, and what jQuery does when
  it triggers them, are recorded as calls (\<open>jq_log\<close>) and not run.
\<close>

datatype jsval =
    JUndefined
  | JNull
  | JBool bool
  | JNum rat
  | JStr string
  | JFunc nat
  | JListener nat
  | JElem nat
  | JObj nat
  | JThis
  | JEvent "string option" jsval jsval
  | JListeners "(string \<times> nat) list"
  | JConcat string jsval

fun truthy :: "jsval \<Rightarrow> bool" where
  "truthy JUndefined = False"
| "truthy JNull = False"
| "truthy (JBool b) = b"
| "truthy (JNum q) = (q \<noteq> 0)"
| "truthy (JStr s) = (s \<noteq> [])"
| "truthy _ = True"

fun is_function :: "jsval \<Rightarrow> bool" where
  "is_function (JFunc f) = True"
| "is_function _ = False"

text \<open>
  An own property of the instance is a field holding a value, or one of the methods that
  \<open>$.extend(this, new Eventable())\<close> copied onto the instance (\<open>$.extend\<close> copies every
  enumerable property, inherited ones included, which is how a \<open>modal\<close> comes to have
  \<open>this.log\<close> and \<open>this.trigger\<close> at all).
\<close>

datatype slot = Field jsval | Mixin

record listener =
  lid :: nat
  func_ref :: jsval
  event_type :: string
  event_style :: jsval
  event_selector :: jsval

datatype jq_call =
    JqBind jsval string jsval
  | JqUnbind jsval string jsval
  | JqUnbindType jsval string
  | JqUnbindAll jsval
  | JqTrigger jsval string

record element =
  eid :: nat
  el_id :: string
  el_parent :: "nat option"
  el_classes :: "string list"
  el_style :: "(string \<times> jsval) list"
  el_attached :: bool

record chip =
  chip_owner :: jsval
  chip_title :: jsval
  chip_html :: jsval

text \<open>
  A call of \<open>console.log\<close>: the line written, or, under a \<open>_log_prefix\<close> that is an object
  or a function, the prefix and the message (the line then depends on the prefix's
  \<open>length\<close> and text, which are not worked out).
\<close>

datatype line = Line string | Prefixed jsval string

datatype anim =
    FadeOut nat jsval
  | FadeIn nat jsval
  | FadeOutKill nat jsval
  | FadeOutRemove nat

record world =
  props :: "string \<rightharpoonup> slot"
  arrays :: "nat \<Rightarrow> listener list"
  next_ref :: nat
  jq_log :: "jq_call list"
  console :: "line list"
  alerts :: "string list"
  has_console :: bool
  location_search :: string
  dom :: "element list"
  tray :: "chip list option"
  pending :: "anim list"
  modal_count :: int
  win_height :: int
  inner_height :: int
  tray_height :: int

datatype jserr = TypeError | InvalidActionType | UserError jsval

datatype outcome = Return jsval world | Throw jserr world

type_synonym fntable = "nat \<Rightarrow> jsval list \<Rightarrow> world \<Rightarrow> outcome"

fun out_world :: "outcome \<Rightarrow> world" where
  "out_world (Return v w) = w"
| "out_world (Throw e w) = w"

definition field :: "world \<Rightarrow> string \<Rightarrow> jsval" where
  "field w k = (case props w k of Some (Field v) \<Rightarrow> v | _ \<Rightarrow> JUndefined)"

definition set_field :: "string \<Rightarrow> jsval \<Rightarrow> world \<Rightarrow> world" where
  "set_field k v w = w\<lparr>props := (props w)(k \<mapsto> Field v)\<rparr>"

definition hasOwnProperty :: "world \<Rightarrow> string \<Rightarrow> bool" where
  "hasOwnProperty w k = (props w k \<noteq> None)"

text \<open>
  \<open>this.m(args)\<close> for a mixed-in method \<open>m\<close>: the method itself while the slot is intact,
  the caller's function once an options object has put one there, a \<open>TypeError\<close> once it
  holds anything else.
\<close>

definition slot_call :: "world \<Rightarrow> string \<Rightarrow> 'r \<Rightarrow> (nat \<Rightarrow> 'r) \<Rightarrow> 'r \<Rightarrow> 'r" where
  "slot_call w name builtin user bad =
     (case props w name of
        Some Mixin \<Rightarrow> builtin
      | Some (Field (JFunc f)) \<Rightarrow> user f
      | _ \<Rightarrow> bad)"

definition call_value :: "fntable \<Rightarrow> jsval \<Rightarrow> jsval list \<Rightarrow> world \<Rightarrow> outcome" where
  "call_value fns v args w = (case v of JFunc f \<Rightarrow> fns f args w | _ \<Rightarrow> Throw TypeError w)"

section \<open>logger.js\<close>

text \<open>
  \<open>Logger.prototype.log\<close>, for a string argument. \<open>this._log_prefix.length\<close> throws on
  \<open>null\<close> and \<open>undefined\<close> and is \<open>undefined\<close> on a boolean or a number.
\<close>

definition logger_log :: "string \<Rightarrow> world \<Rightarrow> outcome" where
  "logger_log out w =
     (if \<not> truthy (field w ''debug'') then Return JThis w
      else if \<not> has_console w then
        Return JThis (set_field ''debug'' (JBool False)
          (w\<lparr>alerts := alerts w @
             [''This browser doesn't support the console.log functionality, disabling debugging.'']\<rparr>))
      else
        (case field w ''_log_prefix'' of
           JUndefined \<Rightarrow> Throw TypeError w
         | JNull \<Rightarrow> Throw TypeError w
         | JStr p \<Rightarrow>
             if p \<noteq> [] then Return JThis (w\<lparr>console := console w @ [Line (p @ '': '' @ out)]\<rparr>)
             else Return JThis (w\<lparr>console := console w @ [Line out]\<rparr>)
         | JBool b \<Rightarrow> Return JThis (w\<lparr>console := console w @ [Line out]\<rparr>)
         | JNum q \<Rightarrow> Return JThis (w\<lparr>console := console w @ [Line out]\<rparr>)
         | v \<Rightarrow> Return JThis (w\<lparr>console := console w @ [Prefixed v out]\<rparr>)))"

definition log_call :: "fntable \<Rightarrow> string \<Rightarrow> world \<Rightarrow> outcome" where
  "log_call fns out w =
     slot_call w ''log'' (logger_log out w) (\<lambda>f. fns f [JStr out] w) (Throw TypeError w)"

section \<open>eventable.js\<close>

definition jqEvents :: "string list" where
  "jqEvents = [''click'', ''dblclick'', ''hover'', ''blur'', ''change'', ''focus'',
     ''focusin'', ''focusout'', ''keypress'', ''keydown'', ''keyup'', ''ready'', ''resize'',
     ''load'', ''mousedown'', ''mouseenter'', ''mouseleave'', ''mousemove'', ''mouseout'',
     ''mouseover'', ''mouseup'']"

text \<open>
  \<open>_listeners\<close> is a plain object, so a name it has no entry of its own for is looked up
  in \<open>Object.prototype\<close>. These are the members every browser gives it, each with the
  \<open>length\<close> the methods below read from it: the number of parameters of the function, and
  for \<open>__proto__\<close> (an object, without a \<open>length\<close>) \<open>0\<close>, because \<open>undefined > 0\<close>,
  \<open>0 < undefined\<close> and \<open>!undefined\<close> come out as they do for \<open>0\<close>. None of them has
  \<open>push\<close>, \<open>splice\<close> or an element \<open>[0]\<close>.
\<close>

definition object_prototype :: "(string \<times> nat) list" where
  "object_prototype =
     [(''constructor'', 1), (''toString'', 0), (''toLocaleString'', 0), (''valueOf'', 0),
      (''hasOwnProperty'', 1), (''isPrototypeOf'', 1), (''propertyIsEnumerable'', 1),
      (''__defineGetter__'', 2), (''__defineSetter__'', 2), (''__lookupGetter__'', 1),
      (''__lookupSetter__'', 1), (''__proto__'', 0)]"

text \<open>
  \<open>this._listeners[type]\<close>: the array registered under the name, an inherited member
  (with its \<open>length\<close>), or \<open>undefined\<close>. The read fails on \<open>null\<close> and \<open>undefined\<close>.
\<close>

datatype bucket = Unusable | NoBucket | Inherited nat | Bucket nat

definition bucket_of :: "world \<Rightarrow> string \<Rightarrow> bucket" where
  "bucket_of w type =
     (case field w ''_listeners'' of
        JListeners reg \<Rightarrow>
          (case map_of reg type of
             Some a \<Rightarrow> Bucket a
           | None \<Rightarrow> (case map_of object_prototype type of
                        Some n \<Rightarrow> Inherited n
                      | None \<Rightarrow> NoBucket))
      | JUndefined \<Rightarrow> Unusable
      | JNull \<Rightarrow> Unusable
      | _ \<Rightarrow> NoBucket)"

text \<open>
  \<open>addListener\<close> with a string \<open>type\<close>. The listener object and, for a new name, the
  array are allocated at \<open>next_ref\<close>. Under an inherited name the test for \<open>undefined\<close>
  fails and \<open>push\<close> is called on a value that has none.
\<close>

definition push_listener :: "nat \<Rightarrow> listener \<Rightarrow> world \<Rightarrow> world" where
  "push_listener a l w = w\<lparr>arrays := (arrays w)(a := arrays w a @ [l])\<rparr>"

definition addListener_name :: "string \<Rightarrow> jsval \<Rightarrow> world \<Rightarrow> outcome" where
  "addListener_name type fref w =
     (let style = (if type \<in> set jqEvents then JStr ''element'' else field w ''event_style'')
      in if style = JStr ''element'' then
           Return JThis (w\<lparr>jq_log := jq_log w @ [JqBind (field w ''event_selector'') type fref]\<rparr>)
         else
           (let l = \<lparr>lid = next_ref w, func_ref = fref, event_type = type,
                     event_style = style, event_selector = field w ''event_selector''\<rparr>;
                w1 = w\<lparr>next_ref := Suc (next_ref w)\<rparr>
            in case bucket_of w1 type of
                 Unusable \<Rightarrow> Throw TypeError w1
               | Inherited n \<Rightarrow> Throw TypeError w1
               | Bucket a \<Rightarrow> Return JThis (push_listener a l w1)
               | NoBucket \<Rightarrow>
                   (case field w1 ''_listeners'' of
                      JListeners reg \<Rightarrow>
                        (let a = next_ref w1;
                             w2 = set_field ''_listeners'' (JListeners (reg @ [(type, a)]))
                                    (w1\<lparr>next_ref := Suc a, arrays := (arrays w1)(a := [])\<rparr>)
                         in Return JThis (push_listener a l w2))
                    | _ \<Rightarrow> Throw TypeError w1)))"

datatype type_arg = TName string | TMap "(string \<times> jsval) list"

fun addListener_each :: "fntable \<Rightarrow> (string \<times> jsval) list \<Rightarrow> world \<Rightarrow> outcome" where
  "addListener_each fns [] w = Return JThis w"
| "addListener_each fns ((idx, v) # rest) w =
     (case slot_call w ''addListener'' (addListener_name idx v w)
             (\<lambda>f. fns f [JStr idx, v] w) (Throw TypeError w) of
        Throw e w' \<Rightarrow> Throw e w'
      | Return r w' \<Rightarrow> addListener_each fns rest w')"

fun addListener :: "fntable \<Rightarrow> type_arg \<Rightarrow> jsval \<Rightarrow> world \<Rightarrow> outcome" where
  "addListener fns (TMap entries) fref w = addListener_each fns entries w"
| "addListener fns (TName type) fref w = addListener_name type fref w"

text \<open>
  \<open>removeListener\<close>. The guard \<open>!this._listeners[type] instanceof Array\<close> parses as
  \<open>(!this._listeners[type]) instanceof Array\<close>, a boolean tested against \<open>Array\<close>: it reads
  the bucket and is never true. The loop compares the array element itself, the listener
  object, with \<open>func_ref\<close>. Under an inherited name the elements read are \<open>undefined\<close>,
  which only an \<open>undefined\<close> \<open>func_ref\<close> equals, and \<open>splice\<close> is missing.
\<close>

fun remove_scan :: "jsval \<Rightarrow> listener list \<Rightarrow> listener list option" where
  "remove_scan fref [] = None"
| "remove_scan fref (l # ls) =
     (if JListener (lid l) \<noteq> fref then map_option ((#) l) (remove_scan fref ls)
      else Some ls)"

definition removeListener :: "string \<Rightarrow> jsval \<Rightarrow> world \<Rightarrow> outcome" where
  "removeListener type fref w =
     (if field w ''event_style'' = JStr ''element'' then
        Return JThis (w\<lparr>jq_log := jq_log w @ [JqUnbind (field w ''event_selector'') type fref]\<rparr>)
      else
        (case bucket_of w type of
           Unusable \<Rightarrow> Throw TypeError w
         | NoBucket \<Rightarrow> Throw TypeError w
         | Inherited n \<Rightarrow>
             if 0 < n \<and> fref = JUndefined then Throw TypeError w else Return (JBool False) w
         | Bucket a \<Rightarrow>
             (case remove_scan fref (arrays w a) of
                Some ls \<Rightarrow> Return JThis (w\<lparr>arrays := (arrays w)(a := ls)\<rparr>)
              | None \<Rightarrow> Return (JBool False) w)))"

text \<open>\<open>events.length\<close>, which throws when \<open>events\<close> is \<open>undefined\<close>.\<close>

definition bucket_length :: "world \<Rightarrow> bucket \<Rightarrow> nat option" where
  "bucket_length w b =
     (case b of
        Unusable \<Rightarrow> None
      | NoBucket \<Rightarrow> None
      | Inherited n \<Rightarrow> Some n
      | Bucket a \<Rightarrow> Some (length (arrays w a)))"

definition removeAllListeners :: "fntable \<Rightarrow> string option \<Rightarrow> world \<Rightarrow> outcome" where
  "removeAllListeners fns etype w =
     (if field w ''event_style'' = JStr ''element'' then
        (case etype of
           Some t \<Rightarrow> Return JThis (w\<lparr>jq_log := jq_log w @ [JqUnbindType (field w ''event_selector'') t]\<rparr>)
         | None \<Rightarrow> Return JThis (w\<lparr>jq_log := jq_log w @ [JqUnbindAll (field w ''event_selector'')]\<rparr>))
      else
        (case etype of
           None \<Rightarrow>
             (case log_call fns ''Cleared all event listeners.'' w of
                Throw e w' \<Rightarrow> Throw e w'
              | Return r w' \<Rightarrow> Return JThis (set_field ''_listeners'' (JListeners []) w'))
         | Some t \<Rightarrow>
             (case bucket_length w (bucket_of w t) of
                None \<Rightarrow> Throw TypeError w
              | Some n \<Rightarrow>
                  if n = 0 then Return JThis w
                  else
                    (case log_call fns (''Clearing event handlers for: '' @ t) w of
                       Throw e w' \<Rightarrow> Throw e w'
                     | Return r w' \<Rightarrow>
                         (case field w' ''_listeners'' of
                            JListeners reg \<Rightarrow>
                              Return JThis
                                (set_field ''_listeners''
                                   (JListeners (AList.update t (next_ref w') reg))
                                   (w'\<lparr>next_ref := Suc (next_ref w'),
                                       arrays := (arrays w')(next_ref w' := [])\<rparr>))
                          | JUndefined \<Rightarrow> Throw TypeError w'
                          | JNull \<Rightarrow> Throw TypeError w'
                          | _ \<Rightarrow> Return JThis w')))))"

definition hasListeners :: "string \<Rightarrow> world \<Rightarrow> outcome" where
  "hasListeners event w =
     (case bucket_of w event of
        Unusable \<Rightarrow> Throw TypeError w
      | NoBucket \<Rightarrow> Return (JBool False) w
      | Inherited n \<Rightarrow> Return (JBool (n > 0)) w
      | Bucket a \<Rightarrow> Return (JBool (length (arrays w a) > 0)) w)"

text \<open>
  \<open>trigger\<close>. What a dispatch does to the outside is kept beside its outcome: the event
  type once the record has passed the check, then each call of a listener with the record
  it was given and what it returned (\<open>None\<close> when it threw). The loop reads the array and
  its length afresh on every round, as the source does, so it need not end: its result is
  an option and \<open>None\<close> is a dispatch that never returns. Over an inherited member with a
  positive \<open>length\<close> the first round reads \<open>func_ref\<close> of \<open>undefined\<close>.
\<close>

datatype obs = Emitted string | Invoked listener jsval "jsval option"

type_synonym run = "(obs list \<times> outcome) option"

partial_function (option) trigger_loop ::
  "fntable \<Rightarrow> nat \<Rightarrow> jsval \<Rightarrow> nat \<Rightarrow> obs list \<Rightarrow> world \<Rightarrow> (obs list \<times> outcome) option" where
  "trigger_loop fns a ev idx acc w =
     (if idx < length (arrays w a) then
        (case call_value fns (func_ref (arrays w a ! idx)) [ev] w of
           Throw e w' \<Rightarrow> Some (acc @ [Invoked (arrays w a ! idx) ev None], Throw e w')
         | Return v w' \<Rightarrow>
             if v = JBool False
             then Some (acc @ [Invoked (arrays w a ! idx) ev (Some v)], Return JThis w')
             else trigger_loop fns a ev (Suc idx)
                    (acc @ [Invoked (arrays w a ! idx) ev (Some v)]) w')
      else Some (acc, Return JThis w))"

datatype event_arg =
    EvName string
  | EvRecord "string option" jsval
  | EvNullish
  | EvPrimitive

text \<open>
  The first three statements of \<open>trigger\<close>: a string becomes \<open>{type: event}\<close>, a record
  without a truthy \<open>target\<close> gets \<open>this\<close>, \<open>params\<close> is attached. Reading \<open>event.target\<close>
  throws on \<open>null\<close> and \<open>undefined\<close>; on a number or a boolean the reads give \<open>undefined\<close>
  and the two assignments are lost.
\<close>

fun normalize_event :: "event_arg \<Rightarrow> jsval \<Rightarrow> jsval option" where
  "normalize_event (EvName s) params = Some (JEvent (Some s) JThis params)"
| "normalize_event (EvRecord ty target) params =
     Some (JEvent ty (if truthy target then target else JThis) params)"
| "normalize_event EvNullish params = None"
| "normalize_event EvPrimitive params = Some (JEvent None JUndefined JUndefined)"

fun resolved_type :: "jsval \<Rightarrow> string option" where
  "resolved_type (JEvent (Some t) target params) = (if t = [] then None else Some t)"
| "resolved_type _ = None"

definition dispatch :: "fntable \<Rightarrow> string \<Rightarrow> jsval \<Rightarrow> world \<Rightarrow> run" where
  "dispatch fns t ev w =
     (let w1 = (if t \<in> set jqEvents
                then w\<lparr>jq_log := jq_log w @ [JqTrigger (field w ''event_selector'') t]\<rparr>
                else w)
      in case slot_call w1 ''hasListeners'' (hasListeners t w1)
                (\<lambda>f. fns f [JStr t] w1) (Throw TypeError w1) of
           Throw e w2 \<Rightarrow> Some ([Emitted t], Throw e w2)
         | Return r w2 \<Rightarrow>
             if \<not> truthy r then Some ([Emitted t], Return JThis w2)
             else
               (case bucket_of w2 t of
                  Unusable \<Rightarrow> Some ([Emitted t], Throw TypeError w2)
                | NoBucket \<Rightarrow> Some ([Emitted t], Throw TypeError w2)
                | Inherited n \<Rightarrow>
                    if 0 < n then Some ([Emitted t], Throw TypeError w2)
                    else Some ([Emitted t], Return JThis w2)
                | Bucket a \<Rightarrow> trigger_loop fns a ev 0 [Emitted t] w2))"

definition trigger :: "fntable \<Rightarrow> event_arg \<Rightarrow> jsval \<Rightarrow> world \<Rightarrow> run" where
  "trigger fns event params w =
     (case normalize_event event params of
        None \<Rightarrow> Some ([], Throw TypeError w)
      | Some ev \<Rightarrow>
          (case resolved_type ev of
             None \<Rightarrow> Some ([], Throw InvalidActionType w)
           | Some t \<Rightarrow> dispatch fns t ev w))"

text \<open>The instance \<open>new Eventable()\<close> builds: its own fields and the copied methods.\<close>

definition eventable_fields :: "(string \<times> slot) list" where
  "eventable_fields =
     [(''event_selector'', Field JNull),
      (''event_style'', Field (JStr ''object'')),
      (''event_type'', Field (JStr '''')),
      (''func_ref'', Field JNull),
      (''func_params'', Field (JObj 0)),
      (''_listeners'', Field (JListeners [])),
      (''_log_prefix'', Field (JStr '''')),
      (''debug'', Field (JBool False)),
      (''setLoggerPrefix'', Mixin),
      (''log'', Mixin)]"

definition eventable_methods :: "(string \<times> slot) list" where
  "eventable_methods =
     [(''addListener'', Mixin),
      (''removeListener'', Mixin),
      (''removeAllListeners'', Mixin),
      (''trigger'', Mixin),
      (''hasListeners'', Mixin)]"

section \<open>modal.js\<close>

subsection \<open>The page: elements, the minimized tray, animations\<close>

text \<open>
  The document is a list of elements. A jQuery object is \<open>JElem n\<close> for an element \<open>n\<close>
  of the list; calling a jQuery method on any other value is a \<open>TypeError\<close>. Only inline
  style is modelled: \<open>.hide()\<close> sets \<open>display: none\<close>, \<open>.show()\<close> takes it away. Sizes
  that the browser lays out (\<open>.height()\<close>, \<open>.outerHeight(true)\<close>) are read from the state.
  An animation started by \<open>fadeOut\<close> or \<open>fadeIn\<close> is queued in \<open>pending\<close>; \<open>finish\<close> is what
  happens when it completes.
\<close>

definition find_elem :: "world \<Rightarrow> nat \<Rightarrow> element option" where
  "find_elem w n = find (\<lambda>e. eid e = n) (dom w)"

definition jq_elem :: "world \<Rightarrow> jsval \<Rightarrow> element option" where
  "jq_elem w v = (case v of JElem n \<Rightarrow> find_elem w n | _ \<Rightarrow> None)"

definition update_elem :: "nat \<Rightarrow> (element \<Rightarrow> element) \<Rightarrow> world \<Rightarrow> world" where
  "update_elem n f w = w\<lparr>dom := map (\<lambda>e. if eid e = n then f e else e) (dom w)\<rparr>"

definition hasClass :: "element \<Rightarrow> string \<Rightarrow> bool" where
  "hasClass e c = (c \<in> set (el_classes e))"

definition addClass :: "string list \<Rightarrow> element \<Rightarrow> element" where
  "addClass cs e = e\<lparr>el_classes := el_classes e @ filter (\<lambda>c. c \<notin> set (el_classes e)) cs\<rparr>"

definition removeClass :: "string list \<Rightarrow> element \<Rightarrow> element" where
  "removeClass cs e = e\<lparr>el_classes := filter (\<lambda>c. c \<notin> set cs) (el_classes e)\<rparr>"

definition css :: "string \<Rightarrow> jsval \<Rightarrow> element \<Rightarrow> element" where
  "css k v e =
     (if v = JStr [] then e\<lparr>el_style := AList.delete k (el_style e)\<rparr>
      else e\<lparr>el_style := AList.update k v (el_style e)\<rparr>)"

definition removeAttr_style :: "element \<Rightarrow> element" where
  "removeAttr_style e = e\<lparr>el_style := []\<rparr>"

definition hide_el :: "element \<Rightarrow> element" where
  "hide_el e = e\<lparr>el_style := AList.update ''display'' (JStr ''none'') (el_style e)\<rparr>"

definition show_el :: "element \<Rightarrow> element" where
  "show_el e = e\<lparr>el_style := AList.delete ''display'' (el_style e)\<rparr>"

definition remove_el :: "element \<Rightarrow> element" where
  "remove_el e = e\<lparr>el_attached := False\<rparr>"



text \<open>\<open>$('.modalJS')[0]\<close>: some element of the document carries the class.\<close>

definition any_modalJS :: "world \<Rightarrow> bool" where
  "any_modalJS w = (\<exists>e \<in> set (dom w). el_attached e \<and> hasClass e ''modalJS'')"

text \<open>\<open>$('#' + this.overlay_id)\<close>: the first element of the document with that id.\<close>

definition overlay_elem :: "world \<Rightarrow> element option" where
  "overlay_elem w =
     (case field w ''overlay_id'' of
        JStr s \<Rightarrow> find (\<lambda>e. el_attached e \<and> el_id e = s) (dom w)
      | _ \<Rightarrow> None)"


definition update_elems :: "nat list \<Rightarrow> (element \<Rightarrow> element) \<Rightarrow> world \<Rightarrow> world" where
  "update_elems ns f w = w\<lparr>dom := map (\<lambda>e. if eid e \<in> set ns then f e else e) (dom w)\<rparr>"

definition finish :: "anim \<Rightarrow> world \<Rightarrow> world" where
  "finish an w =
     (case an of
        FadeOut n speed \<Rightarrow> update_elem n hide_el w
      | FadeIn n speed \<Rightarrow> update_elem n show_el w
      | FadeOutRemove n \<Rightarrow> update_elem n (remove_el \<circ> hide_el) w
      | FadeOutKill n speed \<Rightarrow>
          (let w1 = update_elem n (remove_el \<circ> hide_el) w
           in if field w1 ''overlay'' = JBool False then w1
              else (case overlay_elem w1 of
                      None \<Rightarrow> w1
                    | Some ov \<Rightarrow> w1\<lparr>pending := pending w1 @ [FadeOutRemove (eid ov)]\<rparr>)))"

definition finish_pending :: "world \<Rightarrow> world" where
  "finish_pending w = fold finish (pending w) (w\<lparr>pending := []\<rparr>)"

subsection \<open>Running events from the controller\<close>

definition run_then :: "run \<Rightarrow> (world \<Rightarrow> run) \<Rightarrow> run" where
  "run_then r k =
     (case r of
        None \<Rightarrow> None
      | Some (tr, Throw e w) \<Rightarrow> Some (tr, Throw e w)
      | Some (tr, Return v w) \<Rightarrow>
          (case k w of None \<Rightarrow> None | Some (tr', out) \<Rightarrow> Some (tr @ tr', out)))"

definition no_events :: "outcome \<Rightarrow> run" where
  "no_events out = Some ([], out)"

text \<open>\<open>this.trigger(name, params)\<close>, through the instance's \<open>trigger\<close> slot.\<close>

definition trigger_call :: "fntable \<Rightarrow> string \<Rightarrow> jsval \<Rightarrow> world \<Rightarrow> run" where
  "trigger_call fns t params w =
     slot_call w ''trigger'' (trigger fns (EvName t) params w)
       (\<lambda>f. no_events (fns f [JStr t, params] w)) (no_events (Throw TypeError w))"

subsection \<open>The constructor and \<open>settings\<close>\<close>

fun settings :: "fntable \<Rightarrow> (string \<times> jsval) list \<Rightarrow> world \<Rightarrow> outcome" where
  "settings fns [] w = Return JThis w"
| "settings fns ((idx, v) # rest) w =
     (if hasOwnProperty w idx then settings fns rest (set_field idx v w)
      else (case log_call fns (''Invalid property set: '' @ idx) w of
              Throw e w' \<Rightarrow> Throw e w'
            | Return r w' \<Rightarrow> settings fns rest w'))"

fun split_on :: "char \<Rightarrow> string \<Rightarrow> string list" where
  "split_on c [] = [[]]"
| "split_on c (x # xs) =
     (if x = c then [] # split_on c xs
      else (case split_on c xs of [] \<Rightarrow> [[x]] | p # ps \<Rightarrow> (x # p) # ps))"

fun starts_with :: "string \<Rightarrow> string \<Rightarrow> bool" where
  "starts_with [] s = True"
| "starts_with (p # ps) [] = False"
| "starts_with (p # ps) (x # xs) = (p = x \<and> starts_with ps xs)"

fun contains :: "string \<Rightarrow> string \<Rightarrow> bool" where
  "contains p [] = (p = [])"
| "contains p (x # xs) = (starts_with p (x # xs) \<or> contains p xs)"

text \<open>The loop of \<open>setLoggerPrefix\<close> over the query string's parameters.\<close>

fun enable_logging :: "fntable \<Rightarrow> string \<Rightarrow> string list \<Rightarrow> world \<Rightarrow> outcome" where
  "enable_logging fns pfx [] w = Return JThis w"
| "enable_logging fns pfx (q # qs) w =
     (if contains (pfx @ ''='') q then
        (case log_call fns ''Logging Enabled!'' (set_field ''debug'' (JBool True) w) of
           Throw e w' \<Rightarrow> Throw e w'
         | Return r w' \<Rightarrow> enable_logging fns pfx qs w')
      else enable_logging fns pfx qs w)"

definition setLoggerPrefix :: "fntable \<Rightarrow> string \<Rightarrow> world \<Rightarrow> outcome" where
  "setLoggerPrefix fns pfx w =
     (if truthy (field w ''debug'') then Return JThis w
      else enable_logging fns pfx (split_on CHR ''&'' (drop 1 (location_search w)))
             (set_field ''_log_prefix'' (JStr pfx) w))"

definition digit_char :: "nat \<Rightarrow> char" where
  "digit_char n = ''0123456789'' ! n"

fun show_nat :: "nat \<Rightarrow> string" where
  "show_nat n =
     (if n < 10 then [digit_char n]
      else show_nat (n div 10) @ [digit_char (n mod 10)])"

definition show_int :: "int \<Rightarrow> string" where
  "show_int i = (if i < 0 then CHR ''-'' # show_nat (nat (- i)) else show_nat (nat i))"

fun concat_str :: "string \<Rightarrow> jsval \<Rightarrow> jsval" where
  "concat_str p (JStr s) = JStr (p @ s)"
| "concat_str p v = JConcat p v"

text \<open>The fields the constructor assigns before it calls \<open>settings\<close>, for the counter \<open>n\<close>.\<close>

definition modal_fields :: "int \<Rightarrow> (string \<times> slot) list" where
  "modal_fields n =
     [(''window'', Field JNull),
      (''input_has_focus'', Field (JBool False)),
      (''modal_id'', Field (JStr (''oneModal'' @ show_int n))),
      (''overlay_id'', Field (JStr (''oneOverlay'' @ show_int n))),
      (''content'', Field (JStr [])),
      (''container'', Field (JObj 1)),
      (''footer'', Field (JStr [])),
      (''modal_class'', Field (JStr [])),
      (''title'', Field (JStr [])),
      (''sub_title'', Field (JStr [])),
      (''theme'', Field (JStr ''dark'')),
      (''speed'', Field (JStr ''fast'')),
      (''overlay'', Field (JNum (3 / 4))),
      (''user_actions'', Field (JBool False)),
      (''draggable'', Field (JBool False)),
      (''overlay_exit'', Field (JBool True)),
      (''snap_overlay'', Field (JBool False)),
      (''snap'', Field (JBool True)),
      (''center'', Field (JBool True)),
      (''center_resize'', Field (JBool True)),
      (''minimizable'', Field (JBool False)),
      (''is_minimized'', Field (JBool False)),
      (''hug_content'', Field (JBool False)),
      (''no_close_button'', Field (JBool False)),
      (''display_on_load'', Field (JBool True)),
      (''content_selector'', Field JNull),
      (''minimize_callback'', Field JNull),
      (''render_modal_callback'', Field JNull),
      (''close_func'', Field JNull),
      (''cancel_close'', Field (JBool False))]"

text \<open>
  The instance at the moment the constructor calls \<open>this.settings(args)\<close>: the counter has
  been incremented, \<open>$.extend(this, new Eventable())\<close> has copied the fields and the methods
  of an \<open>Eventable\<close> (which holds those of a \<open>Logger\<close>), and the modal's own fields are set.
\<close>

definition modal_init :: "world \<Rightarrow> world" where
  "modal_init page =
     page\<lparr>modal_count := modal_count page + 1,
          props := map_of (modal_fields (modal_count page + 1) @ eventable_fields @ eventable_methods)\<rparr>"

definition new_modal :: "fntable \<Rightarrow> (string \<times> jsval) list \<Rightarrow> world \<Rightarrow> outcome" where
  "new_modal fns args page =
     (case settings fns args (modal_init page) of
        Throw e w \<Rightarrow> Throw e w
      | Return r w \<Rightarrow>
          (case slot_call w ''setLoggerPrefix'' (setLoggerPrefix fns ''ModalJS'' w)
                  (\<lambda>f. fns f [JStr ''ModalJS''] w) (Throw TypeError w) of
             Throw e w1 \<Rightarrow> Throw e w1
           | Return r1 w1 \<Rightarrow>
               Return JThis
                 (set_field ''event_selector'' (concat_str ''#'' (field w1 ''modal_id'')) w1)))"

subsection \<open>Showing, hiding, minimizing\<close>


definition show_modal :: "fntable \<Rightarrow> world \<Rightarrow> run" where
  "show_modal fns w =
     (case jq_elem w (field w ''window'') of
        None \<Rightarrow> no_events (Throw TypeError w)
      | Some e \<Rightarrow>
          run_then (trigger_call fns ''modal.show'' JUndefined (update_elem (eid e) show_el w))
            (\<lambda>w1. no_events (Return JThis w1)))"

definition minimizeCallback :: "fntable \<Rightarrow> world \<Rightarrow> run" where
  "minimizeCallback fns w =
     run_then (trigger_call fns ''modal.minimize'' JUndefined w)
       (\<lambda>w1. if \<not> is_function (field w1 ''minimize_callback'') then no_events (Return JThis w1)
             else run_then (no_events (call_value fns (field w1 ''minimize_callback'') [JThis] w1))
                    (\<lambda>w2. no_events (Return JThis w2)))"

definition fade_overlay :: "(nat \<Rightarrow> jsval \<Rightarrow> anim) \<Rightarrow> world \<Rightarrow> world" where
  "fade_overlay mk w =
     (if field w ''overlay'' \<noteq> JBool False then
        (case overlay_elem w of
           None \<Rightarrow> w
         | Some ov \<Rightarrow> w\<lparr>pending := pending w @ [mk (eid ov) (field w ''speed'')]\<rparr>)
      else w)"


text \<open>
  The click handler \<open>minimize\<close> puts on the chip it adds, for the chip at position \<open>i\<close>
  of the tray. \<open>context.overlay.css\<close> is a method call on the \<open>overlay\<close> setting.
\<close>

definition restore_click :: "fntable \<Rightarrow> nat \<Rightarrow> world \<Rightarrow> run" where
  "restore_click fns i w =
     (case tray w of
        None \<Rightarrow> no_events (Return JUndefined w)
      | Some chips \<Rightarrow>
          if i < length chips \<and> chip_owner (chips ! i) = JThis then
            run_then (show_modal fns (w\<lparr>tray := Some (take i chips @ drop (Suc i) chips)\<rparr>))
              (\<lambda>w1.
                 (case jq_elem w1 (field w1 ''window'') of
                    None \<Rightarrow> no_events (Throw TypeError w1)
                  | Some e \<Rightarrow>
                      run_then
                        (if hasClass e ''modalDocked'' then
                           (case jq_elem w1 (field w1 ''overlay'') of
                              None \<Rightarrow> no_events (Throw TypeError w1)
                            | Some ov \<Rightarrow> no_events (Return JThis (update_elem (eid ov) hide_el w1)))
                         else no_events (Return JThis w1))
                        (\<lambda>w2. minimizeCallback fns
                                (set_field ''is_minimized'' (JBool False)
                                   (fade_overlay FadeIn w2)))))
          else no_events (Return JUndefined w))"

subsection \<open>Docking\<close>





subsection \<open>Closing\<close>

text \<open>
  The first two statements of \<open>kill\<close> after its guard: the close event, then the optional
  \<open>close_func\<close>.
\<close>

definition close_intent :: "fntable \<Rightarrow> world \<Rightarrow> run" where
  "close_intent fns w =
     run_then (trigger_call fns ''modal.close'' JUndefined w)
       (\<lambda>w1. if is_function (field w1 ''close_func'')
             then run_then (no_events (call_value fns (field w1 ''close_func'') [JThis] w1))
                    (\<lambda>w2. no_events (Return JThis w2))
             else no_events (Return JThis w1))"

definition kill :: "fntable \<Rightarrow> world \<Rightarrow> run" where
  "kill fns w =
     (if \<not> any_modalJS w then no_events (Return JThis w)
      else
        run_then (close_intent fns w)
          (\<lambda>w1.
             if truthy (field w1 ''cancel_close'') then
               run_then (trigger_call fns ''modal.cancel_close'' JUndefined w1)
                 (\<lambda>w2. no_events (Return JThis w2))
             else
               (let w2 = w1\<lparr>modal_count := modal_count w1 - 1\<rparr>
                in case jq_elem w2 (field w2 ''window'') of
                     None \<Rightarrow> no_events (Throw TypeError w2)
                   | Some e \<Rightarrow>
                       no_events (Return JThis
                         (w2\<lparr>pending := pending w2 @ [FadeOutKill (eid e) (field w2 ''speed'')]\<rparr>)))))"

section \<open>States used in the statements\<close>

definition blank_page :: world where
  "blank_page =
     \<lparr>props = Map.empty, arrays = (\<lambda>a. []), next_ref = 1, jq_log = [], console = [],
      alerts = [], has_console = True, location_search = [], dom = [], tray = None,
      pending = [], modal_count = 0, win_height = 0, inner_height = 0, tray_height = 0\<rparr>"

definition new_Eventable :: world where
  "new_Eventable = blank_page\<lparr>props := map_of (eventable_fields @ eventable_methods)\<rparr>"

text \<open>\<open>listeners[name]\<close> as a list: the array of the name's bucket, empty without one.\<close>

definition chain :: "world \<Rightarrow> string \<Rightarrow> listener list" where
  "chain w t = (case bucket_of w t of Bucket a \<Rightarrow> arrays w a | _ \<Rightarrow> [])"

text \<open>Functions that return \<open>undefined\<close> and touch nothing.\<close>

definition no_fns :: fntable where
  "no_fns f args w = Return JUndefined w"

text \<open>
  The page after \<open>new modal().renderModal()\<close> on an empty page, once the overlay has
  faded in: the root that \<open>renderModal\<close> builds (classes \<open>modalJS\<close> and the theme, the id
  \<open>modal_id\<close>), its body container, and the overlay of \<open>_renderOverlay\<close>.
\<close>

definition rendered_modal :: world where
  "rendered_modal =
     (set_field ''window'' (JElem 10) (out_world (new_modal no_fns [] blank_page)))
       \<lparr>dom :=
          [\<lparr>eid = 10, el_id = ''oneModal1'', el_parent = None,
            el_classes = [''modalJS'', ''dark''], el_style = [], el_attached = True\<rparr>,
           \<lparr>eid = 11, el_id = [], el_parent = Some 10,
            el_classes = [''modalBodyContainer''], el_style = [], el_attached = True\<rparr>,
           \<lparr>eid = 12, el_id = ''oneOverlay1'', el_parent = None,
            el_classes = [''overlay''], el_style = [(''opacity'', JNum (3 / 4))],
            el_attached = True\<rparr>]\<rparr>"


text \<open>Element \<open>n\<close> is in the document.\<close>

definition attached :: "world \<Rightarrow> nat \<Rightarrow> bool" where
  "attached w n = (\<exists>e \<in> set (dom w). eid e = n \<and> el_attached e)"





text \<open>
  Listeners and callbacks that return and write nothing but \<open>cancel_close\<close>; and those
  among them that never make a truthy \<open>cancel_close\<close> falsy.
\<close>

definition only_cancel_close :: "world \<Rightarrow> world \<Rightarrow> bool" where
  "only_cancel_close w w' = (\<exists>c. w' = w\<lparr>props := (props w)(''cancel_close'' := c)\<rparr>)"

definition vetoers :: "fntable \<Rightarrow> bool" where
  "vetoers fns = (\<forall>f args w. \<exists>v w'. fns f args w = Return v w' \<and> only_cancel_close w w')"

definition never_reset :: "fntable \<Rightarrow> bool" where
  "never_reset fns =
     (\<forall>f args w. truthy (field w ''cancel_close'') \<longrightarrow>
        truthy (field (out_world (fns f args w)) ''cancel_close''))"

text \<open>
  A controller whose \<open>trigger\<close> and \<open>hasListeners\<close> are the mixed-in methods, whose
  \<open>_listeners\<close> can be read, and whose listeners for the two events of \<open>kill\<close> are
  functions.
\<close>

definition closable :: "world \<Rightarrow> bool" where
  "closable w =
     (props w ''trigger'' = Some Mixin \<and> props w ''hasListeners'' = Some Mixin \<and>
      field w ''_listeners'' \<noteq> JNull \<and> field w ''_listeners'' \<noteq> JUndefined \<and>
      (\<forall>l \<in> set (chain w ''modal.close''). is_function (func_ref l)) \<and>
      (\<forall>l \<in> set (chain w ''modal.cancel_close''). is_function (func_ref l)))"

text \<open>\<open>kill\<close> called \<open>n\<close> times in a row.\<close>

fun kills :: "nat \<Rightarrow> fntable \<Rightarrow> world \<Rightarrow> run" where
  "kills 0 fns w = no_events (Return JThis w)"
| "kills (Suc n) fns w = run_then (kill fns w) (kills n fns)"

text \<open>
  \<open>log\<close> is the mixed-in method and \<open>_log_prefix\<close> a string: a call of \<open>this.log\<close> returns.
\<close>

definition log_intact :: "world \<Rightarrow> bool" where
  "log_intact w = (props w ''log'' = Some Mixin \<and> (\<exists>p. field w ''_log_prefix'' = JStr p))"


text \<open>
  The states in which \<open>this.log\<close> cannot be called to report an unknown name: \<open>log\<close> holds
  something that is not a function; or it is the method of the \<open>Logger\<close>, debugging is on,
  the browser has a console, and \<open>_log_prefix\<close> is \<open>null\<close> or \<open>undefined\<close>.
\<close>

definition report_fails :: "world \<Rightarrow> bool" where
  "report_fails w =
     (case props w ''log'' of
        Some Mixin \<Rightarrow>
          truthy (field w ''debug'') \<and> has_console w \<and>
          (field w ''_log_prefix'' = JNull \<or> field w ''_log_prefix'' = JUndefined)
      | Some (Field (JFunc f)) \<Rightarrow> False
      | _ \<Rightarrow> True)"



definition internals :: "string list" where
  "internals = [''cancel_close'', ''is_minimized'', ''modal_id'', ''overlay_id'', ''window'',
     ''debug'', ''_listeners'']"



text \<open>The listeners a run called, each by its callback, with what it returned.\<close>

fun invoked :: "obs list \<Rightarrow> (jsval \<times> jsval option) list" where
  "invoked [] = []"
| "invoked (Emitted t # tr) = invoked tr"
| "invoked (Invoked l ev r # tr) = (func_ref l, r) # invoked tr"





text \<open>What a run shows from outside: the events it emitted and how it ended; and its last state.\<close>

fun result_of :: "outcome \<Rightarrow> jserr + jsval" where
  "result_of (Return v w) = Inr v"
| "result_of (Throw e w) = Inl e"


definition state_after :: "run \<Rightarrow> world option" where
  "state_after r = map_option (\<lambda>(tr, out). out_world out) r"

text \<open>
  A listener that sets \<open>cancel_close\<close> (function 1; the other functions do nothing), and
  the rendered modal with that listener on \<open>modal.close\<close>.
\<close>

definition veto_fns :: fntable where
  "veto_fns f args w =
     Return JUndefined (if f = 1 then set_field ''cancel_close'' (JBool True) w else w)"

definition vetoing_modal :: world where
  "vetoing_modal = out_world (addListener veto_fns (TName ''modal.close'') (JFunc 1) rendered_modal)"

section \<open>Removing a listener\<close>

lemmas bus_defs = new_Eventable_def blank_page_def eventable_fields_def eventable_methods_def
  addListener_name_def removeListener_def bucket_of_def field_def set_field_def push_listener_def
  jqEvents_def chain_def object_prototype_def

text \<open>
  Claim C1. After \<open>addListener('modal.render', f)\<close> on a new \<open>Eventable\<close> the chain holds the
  record of \<open>f\<close>; \<open>removeListener('modal.render', f)\<close> then returns \<open>false\<close> and leaves
  the state, the chain included, as it was: the record is not removed and the bus is not
  returned.
\<close>

theorem removeListener_registered_callback_not_removed:
  "let w1 = out_world (addListener fns (TName ''modal.render'') (JFunc 7) new_Eventable)
   in map func_ref (chain w1 ''modal.render'') = [JFunc 7]
    \<and> removeListener ''modal.render'' (JFunc 7) w1 = Return (JBool False) w1"
  by (simp add: bus_defs Let_def)

text \<open>
  Claim C6. On a new \<open>Eventable\<close>, which has no bucket for \<open>modal.render\<close>,
  \<open>removeListener('modal.render', f)\<close> throws a \<open>TypeError\<close> (the length of \<open>undefined\<close>
  is read); it does not return the bus.
\<close>

theorem removeListener_missing_bucket_throws:
  "bucket_of new_Eventable ''modal.render'' = NoBucket
    \<and> removeListener ''modal.render'' (JFunc 7) new_Eventable = Throw TypeError new_Eventable"
  by (simp add: bus_defs)


section \<open>The dispatch loop\<close>




lemma field_jq_log [simp]: "field (w\<lparr>jq_log := x\<rparr>) k = field w k"
  by (simp add: field_def)

lemma bucket_of_jq_log [simp]: "bucket_of (w\<lparr>jq_log := x\<rparr>) t = bucket_of w t"
  by (simp add: bucket_of_def)












lemmas trigger_eval_defs = trigger_def dispatch_def slot_call_def hasListeners_def
  trigger_loop.simps call_value_def





section \<open>Removal and the order of invocation\<close>

text \<open>
  Claim C7. Two callbacks are registered under \<open>modal.render\<close> on a new \<open>Eventable\<close> and
  the first is then removed by \<open>removeListener('modal.render', f1)\<close>. The call returns
  \<open>false\<close> and changes nothing, and a dispatch still calls the removed callback, before the
  second: the listeners called are not the registered ones that were not removed. (This is
  the comparison of the listener object with \<open>func_ref\<close> in \<open>removeListener\<close>.) And under
  the name \<open>constructor\<close>, which the plain object \<open>_listeners\<close> inherits a member for,
  \<open>addListener\<close> throws and registers nothing, and a dispatch throws without calling
  anything.
\<close>

theorem removed_callback_still_invoked:
  "(let w1 = out_world (addListener no_fns (TName ''modal.render'') (JFunc 1) new_Eventable);
        w2 = out_world (addListener no_fns (TName ''modal.render'') (JFunc 2) w1)
    in map func_ref (chain w2 ''modal.render'') = [JFunc 1, JFunc 2]
     \<and> removeListener ''modal.render'' (JFunc 1) w2 = Return (JBool False) w2
     \<and> map_option (\<lambda>(tr, out). (invoked tr, result_of out))
          (trigger no_fns (EvName ''modal.render'') JUndefined w2) =
        Some ([(JFunc 1, Some JUndefined), (JFunc 2, Some JUndefined)], Inr JThis))
   \<and> (let w1 = out_world (addListener no_fns (TName ''constructor'') (JFunc 1) new_Eventable)
      in result_of (addListener no_fns (TName ''constructor'') (JFunc 1) new_Eventable) = Inl TypeError
       \<and> chain w1 ''constructor'' = []
       \<and> map_option (\<lambda>(tr, out). (invoked tr, result_of out))
            (trigger no_fns (EvName ''constructor'') JUndefined w1) =
          Some ([], Inl TypeError))"
  by (simp add: bus_defs Let_def trigger_eval_defs no_fns_def)

section \<open>The configuration merge\<close>

lemma log_call_props:
  assumes "log_intact w"
  shows "\<exists>w'. log_call fns out w = Return JThis w' \<and> log_intact w' \<and>
              has_console w' = has_console w \<and>
              (\<forall>k. k \<noteq> ''debug'' \<longrightarrow> props w' k = props w k) \<and>
              (has_console w \<longrightarrow> props w' = props w)"
proof -
  from assms obtain p where m: "props w ''log'' = Some Mixin" and p: "field w ''_log_prefix'' = JStr p"
    by (auto simp add: log_intact_def)
  have lc: "log_call fns out w = logger_log out w"
    using m by (simp add: log_call_def slot_call_def)
  show ?thesis
  proof (cases "truthy (field w ''debug'')")
    case False
    then show ?thesis using lc assms by (simp add: logger_log_def)
  next
    case True
    show ?thesis
    proof (cases "has_console w")
      case False
      then show ?thesis using lc True m p
        by (simp add: logger_log_def log_intact_def set_field_def field_def)
    next
      case hc: True
      then show ?thesis using lc True m p
        by (simp add: logger_log_def log_intact_def field_def)
    qed
  qed
qed

lemma log_intact_set_field:
  "log_intact w \<Longrightarrow> k \<noteq> ''log'' \<Longrightarrow> (k = ''_log_prefix'' \<longrightarrow> (\<exists>p. v = JStr p)) \<Longrightarrow>
   log_intact (set_field k v w)"
  by (auto simp add: log_intact_def set_field_def field_def)























lemma settings_report_switches_debug_off:
  "(case settings no_fns [(''debug'', JBool True), (''colour'', JStr ''red'')]
           ((modal_init blank_page)\<lparr>has_console := False\<rparr>) of
      Return v w' \<Rightarrow> v = JThis \<and> field w' ''debug'' = JBool False \<and> props w' ''colour'' = None
    | Throw e w' \<Rightarrow> False)"
  by code_simp


lemma settings_all_own:
  "(\<forall>k \<in> fst ` set args. hasOwnProperty w k) \<Longrightarrow>
   settings fns args w = Return JThis (fold (\<lambda>(k, v). set_field k v) args w)"
proof (induction args arbitrary: w)
  case Nil
  then show ?case by simp
next
  case (Cons kv args)
  obtain k v where kv: "kv = (k, v)" by (cases kv)
  have own: "hasOwnProperty w k" using Cons.prems kv by simp
  have "\<forall>k' \<in> fst ` set args. hasOwnProperty (set_field k v w) k'"
    using Cons.prems by (auto simp add: hasOwnProperty_def set_field_def)
  from Cons.IH[OF this] show ?case using own kv by simp
qed

lemma fold_set_field_props:
  "props (fold (\<lambda>(k, v). set_field k v) args w) k =
     (case map_of (rev args) k of Some v \<Rightarrow> Some (Field v) | None \<Rightarrow> props w k)"
proof (induction args rule: rev_induct)
  case Nil
  then show ?case by simp
next
  case (snoc kv args)
  obtain k' v' where kv: "kv = (k', v')" by (cases kv)
  show ?case using snoc kv by (simp add: set_field_def)
qed

lemma fold_set_field_other:
  "has_console (fold (\<lambda>(k, v). set_field k v) args w) = has_console w"
  "location_search (fold (\<lambda>(k, v). set_field k v) args w) = location_search w"
  by (induction args arbitrary: w) (auto simp add: set_field_def)

lemma internals_own: "k \<in> set internals \<Longrightarrow> hasOwnProperty (modal_init page) k"
  by (auto simp add: internals_def hasOwnProperty_def modal_init_def modal_fields_def
        eventable_fields_def eventable_methods_def)

lemma enable_logging_props:
  "log_intact w \<Longrightarrow>
   \<exists>w'. enable_logging fns pfx qs w = Return JThis w' \<and>
        (\<forall>k. k \<noteq> ''debug'' \<longrightarrow> props w' k = props w k)"
proof (induction qs arbitrary: w)
  case Nil
  then show ?case by simp
next
  case (Cons q qs)
  show ?case
  proof (cases "contains (pfx @ ''='') q")
    case False
    with Cons show ?thesis by simp
  next
    case True
    have li: "log_intact (set_field ''debug'' (JBool True) w)"
      using Cons.prems by (intro log_intact_set_field) simp_all
    from log_call_props[OF li, of fns "''Logging Enabled!''"]
    obtain w1 where lc: "log_call fns ''Logging Enabled!'' (set_field ''debug'' (JBool True) w) =
                           Return JThis w1"
      and li1: "log_intact w1"
      and same: "\<forall>k. k \<noteq> ''debug'' \<longrightarrow> props w1 k = props (set_field ''debug'' (JBool True) w) k"
      by blast
    from Cons.IH[OF li1] obtain w' where
      e: "enable_logging fns pfx qs w1 = Return JThis w'"
      and s2: "\<forall>k. k \<noteq> ''debug'' \<longrightarrow> props w' k = props w1 k" by blast
    have "\<forall>k. k \<noteq> ''debug'' \<longrightarrow> props w' k = props w k"
      using same s2 by (simp add: set_field_def)
    then show ?thesis using True lc e by simp
  qed
qed

lemma setLoggerPrefix_props:
  assumes "props w ''log'' = Some Mixin"
  shows "\<exists>w'. setLoggerPrefix fns pfx w = Return JThis w' \<and>
        (\<forall>k. k \<noteq> ''debug'' \<and> k \<noteq> ''_log_prefix'' \<longrightarrow> props w' k = props w k)"
proof (cases "truthy (field w ''debug'')")
  case True
  then show ?thesis by (simp add: setLoggerPrefix_def)
next
  case False
  have li: "log_intact (set_field ''_log_prefix'' (JStr pfx) w)"
    using assms by (simp add: log_intact_def set_field_def field_def)
  from enable_logging_props[OF li, of fns pfx "split_on CHR ''&'' (drop 1 (location_search w))"]
  show ?thesis using False by (auto simp add: setLoggerPrefix_def set_field_def)
qed

text \<open>
  Claim C10. For options whose names are among \<open>cancel_close\<close>, \<open>is_minimized\<close>,
  \<open>modal_id\<close>, \<open>overlay_id\<close>, \<open>window\<close>, \<open>debug\<close> and \<open>_listeners\<close>, on the instance
  as the constructor has it when it calls \<open>settings\<close>: every entry is assigned and none
  rejected, each named property ends with the value given for it, and the constructor
  called with these options returns an instance that holds them (for \<open>debug\<close> the
  constructor's own \<open>setLoggerPrefix\<close> may set it afterwards).
\<close>

theorem settings_overwrites_internals:
  assumes sub: "set (map fst args) \<subseteq> set internals"
  shows "settings fns args (modal_init page) =
           Return JThis (fold (\<lambda>(k, v). set_field k v) args (modal_init page))
       \<and> (\<forall>k v. map_of (rev args) k = Some v \<longrightarrow>
             field (fold (\<lambda>(k, v). set_field k v) args (modal_init page)) k = v)
       \<and> (\<exists>w. new_modal fns args page = Return JThis w \<and>
             (\<forall>k v. map_of (rev args) k = Some v \<and> k \<noteq> ''debug'' \<longrightarrow> field w k = v))"
proof -
  let ?w0 = "modal_init page"
  let ?w1 = "fold (\<lambda>(k, v). set_field k v) args ?w0"
  have own: "\<forall>k \<in> fst ` set args. hasOwnProperty ?w0 k"
    using sub internals_own by auto
  have s: "settings fns args ?w0 = Return JThis ?w1"
    using settings_all_own[OF own] .
  have f: "\<forall>k v. map_of (rev args) k = Some v \<longrightarrow> field ?w1 k = v"
    by (simp add: field_def fold_set_field_props)
  have keys: "\<And>k. k \<notin> set internals \<Longrightarrow> map_of (rev args) k = None"
    using sub by (metis map_of_eq_None_iff set_map set_rev subsetD)
  have lg: "props ?w1 ''log'' = Some Mixin"
    using keys[of "''log''"]
    by (simp add: fold_set_field_props internals_def modal_init_def modal_fields_def
          eventable_fields_def eventable_methods_def)
  have sl: "props ?w1 ''setLoggerPrefix'' = Some Mixin"
    using keys[of "''setLoggerPrefix''"]
    by (simp add: fold_set_field_props internals_def modal_init_def modal_fields_def
          eventable_fields_def eventable_methods_def)
  from setLoggerPrefix_props[OF lg, of fns "''ModalJS''"] obtain w2 where
    sp: "setLoggerPrefix fns ''ModalJS'' ?w1 = Return JThis w2"
    and same: "\<forall>k. k \<noteq> ''debug'' \<and> k \<noteq> ''_log_prefix'' \<longrightarrow> props w2 k = props ?w1 k"
    by blast
  let ?w3 = "set_field ''event_selector'' (concat_str ''#'' (field w2 ''modal_id'')) w2"
  have nm: "new_modal fns args page = Return JThis ?w3"
    using s sl sp by (simp add: new_modal_def slot_call_def)
  have "\<forall>k v. map_of (rev args) k = Some v \<and> k \<noteq> ''debug'' \<longrightarrow> field ?w3 k = v"
  proof (intro allI impI)
    fix k v assume a: "map_of (rev args) k = Some v \<and> k \<noteq> ''debug''"
    then have "k \<in> set internals" using keys by force
    then have k: "k \<noteq> ''_log_prefix''" "k \<noteq> ''event_selector''" by (auto simp add: internals_def)
    have "field ?w3 k = field ?w1 k"
      using same a k by (simp add: field_def set_field_def)
    then show "field ?w3 k = v" using f a by simp
  qed
  then show ?thesis using s f nm by blast
qed

theorem settings_overwrites_internals_witness:
  "set (map fst [(''cancel_close'', JBool True), (''window'', JStr ''oops''), (''_listeners'', JNull)])
     \<subseteq> set internals \<and>
   (\<exists>w. new_modal no_fns [(''cancel_close'', JBool True), (''window'', JStr ''oops''),
                          (''_listeners'', JNull)] blank_page = Return JThis w
      \<and> field w ''cancel_close'' = JBool True \<and> field w ''window'' = JStr ''oops''
      \<and> field w ''_listeners'' = JNull)"
proof -
  let ?args = "[(''cancel_close'', JBool True), (''window'', JStr ''oops''), (''_listeners'', JNull)]"
  have h: "set (map fst ?args) \<subseteq> set internals" by (simp add: internals_def)
  from settings_overwrites_internals[OF h, of no_fns blank_page] obtain w where
    n: "new_modal no_fns ?args blank_page = Return JThis w"
    and f: "\<forall>k v. map_of (rev ?args) k = Some v \<and> k \<noteq> ''debug'' \<longrightarrow> field w k = v"
    by blast
  have "field w ''cancel_close'' = JBool True" "field w ''window'' = JStr ''oops''"
       "field w ''_listeners'' = JNull"
    using f by simp_all
  then show ?thesis using h n by blast
qed

section \<open>Docking and the minimized flag\<close>

lemma props_update_elem [simp]: "props (update_elem n f w) = props w"
  by (simp add: update_elem_def)

lemma props_update_elems [simp]: "props (update_elems ns f w) = props w"
  by (simp add: update_elems_def)

lemma field_update_elem [simp]: "field (update_elem n f w) k = field w k"
  by (simp add: field_def)

lemma field_update_elems [simp]: "field (update_elems ns f w) k = field w k"
  by (simp add: field_def)

lemma report_fails_update_elem [simp]: "report_fails (update_elem n f w) = report_fails w"
  by (simp add: report_fails_def update_elem_def field_def split: option.split slot.split)









lemma eid_kept [simp]:
  "eid (css k v e) = eid e" "eid (hide_el e) = eid e" "eid (show_el e) = eid e"
  "eid (removeAttr_style e) = eid e" "eid (addClass cs e) = eid e" "eid (removeClass cs e) = eid e"
  by (simp_all add: css_def hide_el_def show_el_def removeAttr_style_def addClass_def removeClass_def)

lemma classes_kept [simp]:
  "el_classes (css k v e) = el_classes e" "el_classes (hide_el e) = el_classes e"
  "el_classes (show_el e) = el_classes e" "el_classes (removeAttr_style e) = el_classes e"
  by (simp_all add: css_def hide_el_def show_el_def removeAttr_style_def)


















end
